theory Spec2Isabelle
  imports Main "HOL-Library.AList"
begin

section \<open>JavaScript values and the object store\<close>

text \<open>
  The library in \<^verbatim>\<open>src/async-data.ts\<close> is a handful of functions over plain
  JavaScript objects. TypeScript's types are erased at run time, so every function is
  modelled on every JavaScript value, with the exceptions the engine raises written out.

  A value is a primitive or a reference to an object of the store; two references are
  the same instance exactly when their addresses are equal. Numbers are never computed
  with here: \<open>JNum\<close> stands for the finite numbers and \<open>JNaN\<close> for the
  not-a-number, which \<open>===\<close> and the truth test treat specially.
\<close>

type_synonym addr = nat

datatype jsval =
    JUndefined
  | JNull
  | JBool bool
  | JNum int
  | JNaN
  | JStr string
  | JRef addr

text \<open>
  An object is the list of its own enumerable properties in insertion order, which is
  all that an object literal, \<^verbatim>\<open>JSON.parse\<close> or an object spread produces. The
  prototype of such an object defines none of the names this library reads or tests
  (\<^verbatim>\<open>state\<close>, \<^verbatim>\<open>isLoading\<close>, \<^verbatim>\<open>data\<close>), so a
  lookup of these names is a lookup among the own properties.
\<close>

type_synonym props = "(string \<times> jsval) list"

type_synonym heap = "props list"

datatype error = TypeError | Error string

text \<open>
  The properties stored at an address. JavaScript has no dangling reference; an address
  outside the store reads as an object without properties, so that the model is total.
\<close>

definition own_props :: "heap \<Rightarrow> addr \<Rightarrow> props" where
  "own_props h a = (if a < length h then h ! a else [])"

text \<open>An object literal allocates a fresh object and evaluates to a reference to it.\<close>

definition alloc :: "heap \<Rightarrow> props \<Rightarrow> heap \<times> jsval" where
  "alloc h ps = (h @ [ps], JRef (length h))"

text \<open>
  Property read \<^verbatim>\<open>v.k\<close>: a TypeError on \<^verbatim>\<open>undefined\<close> and \<^verbatim>\<open>null\<close>;
  \<^verbatim>\<open>undefined\<close> for a missing property. A primitive boolean, number or string
  is read through its wrapper prototype, which has no property named \<^verbatim>\<open>state\<close>
  or \<^verbatim>\<open>data\<close>.
\<close>

fun get :: "heap \<Rightarrow> jsval \<Rightarrow> string \<Rightarrow> error + jsval" where
  "get h JUndefined k = Inl TypeError"
| "get h JNull k = Inl TypeError"
| "get h (JRef a) k = Inr (case map_of (own_props h a) k of None \<Rightarrow> JUndefined | Some v \<Rightarrow> v)"
| "get h v k = Inr JUndefined"


text \<open>The truth test of \<^verbatim>\<open>&&\<close> and \<^verbatim>\<open>Boolean(...)\<close>.\<close>

fun truthy :: "jsval \<Rightarrow> bool" where
  "truthy JUndefined = False"
| "truthy JNull = False"
| "truthy (JBool b) = b"
| "truthy (JNum n) = (n \<noteq> 0)"
| "truthy JNaN = False"
| "truthy (JStr s) = (s \<noteq> [])"
| "truthy (JRef a) = True"

text \<open>
  \<^verbatim>\<open>typeof v\<close>. The store does not record which objects are callable
  (\<^verbatim>\<open>'function'\<close>); the library only compares the answer with
  \<^verbatim>\<open>'undefined'\<close>.
\<close>

fun typeof :: "jsval \<Rightarrow> string" where
  "typeof JUndefined = ''undefined''"
| "typeof JNull = ''object''"
| "typeof (JBool b) = ''boolean''"
| "typeof (JNum n) = ''number''"
| "typeof JNaN = ''number''"
| "typeof (JStr s) = ''string''"
| "typeof (JRef a) = ''object''"

text \<open>\<^verbatim>\<open>a === b\<close>: equal primitives or the same instance; NaN equals nothing.\<close>

definition strict_eq :: "jsval \<Rightarrow> jsval \<Rightarrow> bool" where
  "strict_eq a b = (a \<noteq> JNaN \<and> a = b)"

text \<open>\<^verbatim>\<open>a ?? b\<close>\<close>

definition nullish :: "jsval \<Rightarrow> jsval \<Rightarrow> jsval" where
  "nullish a b = (if a = JUndefined \<or> a = JNull then b else a)"





section \<open>The AsyncData namespace\<close>

text \<open>
  \<^verbatim>\<open>create(data?, isLoading?)\<close>:
  \<^verbatim>\<open>return { data, state: 'pending', isLoading: isLoading ?? false }\<close>.
  An omitted argument is \<^verbatim>\<open>undefined\<close>.
\<close>

definition create :: "heap \<Rightarrow> jsval \<Rightarrow> jsval \<Rightarrow> heap \<times> jsval" where
  "create h data isLoading =
     alloc h [(''data'', data), (''state'', JStr ''pending''),
              (''isLoading'', nullish isLoading (JBool False))]"

text \<open>\<^verbatim>\<open>resolve(data)\<close>: \<^verbatim>\<open>return { data, state: 'fulfilled', isLoading: false }\<close>\<close>

definition resolve :: "heap \<Rightarrow> jsval \<Rightarrow> heap \<times> jsval" where
  "resolve h data =
     alloc h [(''data'', data), (''state'', JStr ''fulfilled''), (''isLoading'', JBool False)]"

text \<open>
  \<^verbatim>\<open>reject(data, error)\<close>:
  \<^verbatim>\<open>return { data, state: 'rejected', error, isLoading: false }\<close>
\<close>

definition reject :: "heap \<Rightarrow> jsval \<Rightarrow> jsval \<Rightarrow> heap \<times> jsval" where
  "reject h data err =
     alloc h [(''data'', data), (''state'', JStr ''rejected''), (''error'', err),
              (''isLoading'', JBool False)]"

text \<open>\<^verbatim>\<open>isPending(data)\<close>: \<^verbatim>\<open>return data.state === 'pending'\<close>\<close>

definition isPending :: "heap \<Rightarrow> jsval \<Rightarrow> error + bool" where
  "isPending h data =
     (case get h data ''state'' of
        Inl e \<Rightarrow> Inl e
      | Inr st \<Rightarrow> Inr (strict_eq st (JStr ''pending'')))"

text \<open>
  \<^verbatim>\<open>isFulfilled(data?)\<close>: \<^verbatim>\<open>return data?.state === 'fulfilled'\<close>. The optional
  chain yields \<^verbatim>\<open>undefined\<close> on \<^verbatim>\<open>undefined\<close> and \<^verbatim>\<open>null\<close>.
\<close>

definition isFulfilled :: "heap \<Rightarrow> jsval \<Rightarrow> error + bool" where
  "isFulfilled h data =
     (if data = JUndefined \<or> data = JNull then Inr (strict_eq JUndefined (JStr ''fulfilled''))
      else case get h data ''state'' of
             Inl e \<Rightarrow> Inl e
           | Inr st \<Rightarrow> Inr (strict_eq st (JStr ''fulfilled'')))"

text \<open>
  \<^verbatim>\<open>isFulfilledAndDefined(data?)\<close>:
  \<^verbatim>\<open>return Boolean(data && data.state === 'fulfilled' && typeof data.data !== 'undefined')\<close>.
  Each \<^verbatim>\<open>&&\<close> stops at its first falsy operand.
\<close>

definition isFulfilledAndDefined :: "heap \<Rightarrow> jsval \<Rightarrow> error + bool" where
  "isFulfilledAndDefined h data =
     (if \<not> truthy data then Inr False
      else case get h data ''state'' of
             Inl e \<Rightarrow> Inl e
           | Inr st \<Rightarrow>
               if \<not> strict_eq st (JStr ''fulfilled'') then Inr False
               else (case get h data ''data'' of
                       Inl e \<Rightarrow> Inl e
                     | Inr d \<Rightarrow> Inr (typeof d \<noteq> ''undefined'')))"

text \<open>\<^verbatim>\<open>isRejected(data)\<close>: \<^verbatim>\<open>return data.state === 'rejected'\<close>\<close>

definition isRejected :: "heap \<Rightarrow> jsval \<Rightarrow> error + bool" where
  "isRejected h data =
     (case get h data ''state'' of
        Inl e \<Rightarrow> Inl e
      | Inr st \<Rightarrow> Inr (strict_eq st (JStr ''rejected'')))"



section \<open>Facts about the store and property lists\<close>

lemma own_props_alloc_new: "own_props (h @ [ps]) (length h) = ps"
  by (simp add: own_props_def)







section \<open>What the predicates compute\<close>

lemma strict_eq_string: "strict_eq v (JStr s) \<longleftrightarrow> v = JStr s"
  by (auto simp: strict_eq_def)

lemma typeof_undefined: "typeof v \<noteq> ''undefined'' \<longleftrightarrow> v \<noteq> JUndefined"
  by (cases v) simp_all

lemma isPending_non_nullish:
  "v \<noteq> JUndefined \<Longrightarrow> v \<noteq> JNull \<Longrightarrow>
     isPending h v = Inr (get h v ''state'' = Inr (JStr ''pending''))"
  by (cases v) (simp_all add: isPending_def strict_eq_string)

lemma isRejected_non_nullish:
  "v \<noteq> JUndefined \<Longrightarrow> v \<noteq> JNull \<Longrightarrow>
     isRejected h v = Inr (get h v ''state'' = Inr (JStr ''rejected''))"
  by (cases v) (simp_all add: isRejected_def strict_eq_string)

lemma isPending_nullish: "v = JUndefined \<or> v = JNull \<Longrightarrow> isPending h v = Inl TypeError"
  by (auto simp: isPending_def)

lemma isRejected_nullish: "v = JUndefined \<or> v = JNull \<Longrightarrow> isRejected h v = Inl TypeError"
  by (auto simp: isRejected_def)

lemma isFulfilled_value:
  "isFulfilled h v = Inr (get h v ''state'' = Inr (JStr ''fulfilled''))"
  by (cases v) (simp_all add: isFulfilled_def strict_eq_string)

lemma isFulfilledAndDefined_value:
  "isFulfilledAndDefined h v =
     Inr (get h v ''state'' = Inr (JStr ''fulfilled'') \<and> get h v ''data'' \<noteq> Inr JUndefined)"
  by (cases v) (simp_all add: isFulfilledAndDefined_def strict_eq_string typeof_undefined)


lemma get_alloc_new:
  "get (h @ [ps]) (JRef (length h)) k = Inr (case map_of ps k of None \<Rightarrow> JUndefined | Some v \<Rightarrow> v)"
  by (simp add: own_props_alloc_new)

section \<open>fork\<close>







section \<open>The constructors\<close>

text \<open>
  C6. For every \<open>d\<close>, \<open>create\<close> produces an object with state
  \<^verbatim>\<open>'pending'\<close> and data \<open>d\<close>, on which \<open>isPending\<close> returns true and
  \<open>isFulfilled\<close> and \<open>isRejected\<close> return false; with the \<^verbatim>\<open>isLoading\<close>
  argument omitted (\<^verbatim>\<open>undefined\<close>) the flag is \<^verbatim>\<open>false\<close>, and a boolean
  argument is stored as it is.
\<close>

theorem create_is_pending:
  assumes "create h d l = (h', v)"
  shows "get h' v ''state'' = Inr (JStr ''pending'')
     \<and> get h' v ''data'' = Inr d
     \<and> isPending h' v = Inr True
     \<and> isFulfilled h' v = Inr False
     \<and> isRejected h' v = Inr False
     \<and> (l = JUndefined \<longrightarrow> get h' v ''isLoading'' = Inr (JBool False))
     \<and> (\<forall>b. l = JBool b \<longrightarrow> get h' v ''isLoading'' = Inr (JBool b))"
proof -
  let ?ps = "[(''data'', d), (''state'', JStr ''pending''),
              (''isLoading'', nullish l (JBool False))]"
  from assms have h': "h' = h @ [?ps]" and v: "v = JRef (length h)"
    by (simp_all add: create_def alloc_def)
  have s: "get h' v ''state'' = Inr (JStr ''pending'')"
    unfolding h' v get_alloc_new by simp
  have da: "get h' v ''data'' = Inr d"
    unfolding h' v get_alloc_new by simp
  have lo: "get h' v ''isLoading'' = Inr (nullish l (JBool False))"
    unfolding h' v get_alloc_new by simp
  have n: "v \<noteq> JUndefined" "v \<noteq> JNull" by (simp_all add: v)
  have p: "isPending h' v = Inr True" by (simp add: isPending_non_nullish [OF n] s)
  have f: "isFulfilled h' v = Inr False" by (simp add: isFulfilled_value s)
  have r: "isRejected h' v = Inr False" by (simp add: isRejected_non_nullish [OF n] s)
  have l1: "l = JUndefined \<longrightarrow> get h' v ''isLoading'' = Inr (JBool False)"
    by (simp add: lo nullish_def)
  have l2: "\<forall>b. l = JBool b \<longrightarrow> get h' v ''isLoading'' = Inr (JBool b)"
    by (simp add: lo nullish_def)
  from s da p f r l1 l2 show ?thesis by (intro conjI)
qed

theorem create_is_pending_witness:
  "create [] (JNum 1) JUndefined =
     ([[(''data'', JNum 1), (''state'', JStr ''pending''), (''isLoading'', JBool False)]], JRef 0)
   \<and> isPending [[(''data'', JNum 1), (''state'', JStr ''pending''), (''isLoading'', JBool False)]]
        (JRef 0) = Inr True
   \<and> isFulfilled [[(''data'', JNum 1), (''state'', JStr ''pending''), (''isLoading'', JBool False)]]
        (JRef 0) = Inr False
   \<and> isRejected [[(''data'', JNum 1), (''state'', JStr ''pending''), (''isLoading'', JBool False)]]
        (JRef 0) = Inr False"
proof -
  let ?h' = "[[(''data'', JNum 1), (''state'', JStr ''pending''), (''isLoading'', JBool False)]]"
  have c: "create [] (JNum 1) JUndefined = (?h', JRef 0)"
    by (simp add: create_def alloc_def nullish_def)
  note t = create_is_pending [OF c]
  from t have p: "isPending ?h' (JRef 0) = Inr True" by (elim conjE)
  from t have f: "isFulfilled ?h' (JRef 0) = Inr False" by (elim conjE)
  from t have r: "isRejected ?h' (JRef 0) = Inr False" by (elim conjE)
  from c p f r show ?thesis by (intro conjI)
qed

text \<open>
  C7. For every \<open>d\<close>, \<open>resolve\<close> produces an object with state
  \<^verbatim>\<open>'fulfilled'\<close>, \<^verbatim>\<open>isLoading\<close> false and data \<open>d\<close>, on which
  \<open>isFulfilled\<close> returns true.
\<close>

theorem resolve_is_fulfilled:
  assumes "resolve h d = (h', v)"
  shows "get h' v ''state'' = Inr (JStr ''fulfilled'')
     \<and> get h' v ''isLoading'' = Inr (JBool False)
     \<and> get h' v ''data'' = Inr d
     \<and> isFulfilled h' v = Inr True"
proof -
  let ?ps = "[(''data'', d), (''state'', JStr ''fulfilled''), (''isLoading'', JBool False)]"
  from assms have h': "h' = h @ [?ps]" and v: "v = JRef (length h)"
    by (simp_all add: resolve_def alloc_def)
  have s: "get h' v ''state'' = Inr (JStr ''fulfilled'')"
    unfolding h' v get_alloc_new by simp
  have lo: "get h' v ''isLoading'' = Inr (JBool False)"
    unfolding h' v get_alloc_new by simp
  have da: "get h' v ''data'' = Inr d"
    unfolding h' v get_alloc_new by simp
  have f: "isFulfilled h' v = Inr True" by (simp add: isFulfilled_value s)
  from s lo da f show ?thesis by (intro conjI)
qed

theorem resolve_is_fulfilled_witness:
  "resolve [] (JNum 1) =
     ([[(''data'', JNum 1), (''state'', JStr ''fulfilled''), (''isLoading'', JBool False)]], JRef 0)
   \<and> isFulfilled [[(''data'', JNum 1), (''state'', JStr ''fulfilled''), (''isLoading'', JBool False)]]
        (JRef 0) = Inr True"
proof -
  let ?h' = "[[(''data'', JNum 1), (''state'', JStr ''fulfilled''), (''isLoading'', JBool False)]]"
  have c: "resolve [] (JNum 1) = (?h', JRef 0)"
    by (simp add: resolve_def alloc_def)
  note t = resolve_is_fulfilled [OF c]
  from t have f: "isFulfilled ?h' (JRef 0) = Inr True" by (elim conjE)
  from c f show ?thesis by (intro conjI)
qed

text \<open>
  C8. For every \<open>d\<close> and \<open>e\<close>, \<open>reject\<close> produces an object with state
  \<^verbatim>\<open>'rejected'\<close>, error \<open>e\<close>, data \<open>d\<close> and \<^verbatim>\<open>isLoading\<close> false, on
  which \<open>isRejected\<close> returns true.
\<close>

theorem reject_is_rejected:
  assumes "reject h d e = (h', v)"
  shows "get h' v ''state'' = Inr (JStr ''rejected'')
     \<and> get h' v ''error'' = Inr e
     \<and> get h' v ''data'' = Inr d
     \<and> get h' v ''isLoading'' = Inr (JBool False)
     \<and> isRejected h' v = Inr True"
proof -
  let ?ps = "[(''data'', d), (''state'', JStr ''rejected''), (''error'', e),
              (''isLoading'', JBool False)]"
  from assms have h': "h' = h @ [?ps]" and v: "v = JRef (length h)"
    by (simp_all add: reject_def alloc_def)
  have s: "get h' v ''state'' = Inr (JStr ''rejected'')"
    unfolding h' v get_alloc_new by simp
  have er: "get h' v ''error'' = Inr e"
    unfolding h' v get_alloc_new by simp
  have da: "get h' v ''data'' = Inr d"
    unfolding h' v get_alloc_new by simp
  have lo: "get h' v ''isLoading'' = Inr (JBool False)"
    unfolding h' v get_alloc_new by simp
  have n: "v \<noteq> JUndefined" "v \<noteq> JNull" by (simp_all add: v)
  have r: "isRejected h' v = Inr True" by (simp add: isRejected_non_nullish [OF n] s)
  from s er da lo r show ?thesis by (intro conjI)
qed

theorem reject_is_rejected_witness:
  "reject [[(''message'', JStr ''boom'')]] JUndefined (JRef 0) =
     ([[(''message'', JStr ''boom'')],
       [(''data'', JUndefined), (''state'', JStr ''rejected''), (''error'', JRef 0),
        (''isLoading'', JBool False)]], JRef 1)
   \<and> isRejected [[(''message'', JStr ''boom'')],
       [(''data'', JUndefined), (''state'', JStr ''rejected''), (''error'', JRef 0),
        (''isLoading'', JBool False)]] (JRef 1) = Inr True"
proof -
  let ?h' = "[[(''message'', JStr ''boom'')],
       [(''data'', JUndefined), (''state'', JStr ''rejected''), (''error'', JRef 0),
        (''isLoading'', JBool False)]]"
  have c: "reject [[(''message'', JStr ''boom'')]] JUndefined (JRef 0) = (?h', JRef 1)"
    by (simp add: reject_def alloc_def)
  note t = reject_is_rejected [OF c]
  from t have r: "isRejected ?h' (JRef 1) = Inr True" by (elim conjE)
  from c r show ?thesis by (intro conjI)
qed

section \<open>The state predicates\<close>

lemma returns_true_state:
  "isPending h v = Inr True \<Longrightarrow> get h v ''state'' = Inr (JStr ''pending'')"
  "isFulfilled h v = Inr True \<Longrightarrow> get h v ''state'' = Inr (JStr ''fulfilled'')"
  "isRejected h v = Inr True \<Longrightarrow> get h v ''state'' = Inr (JStr ''rejected'')"
  by (auto simp: isPending_def isFulfilled_def isRejected_def strict_eq_string
      split: sum.splits if_splits)

lemma isFulfilledAndDefined_true_iff:
  "isFulfilledAndDefined h v = Inr True \<longleftrightarrow>
     isFulfilled h v = Inr True \<and> get h v ''data'' \<noteq> Inr JUndefined"
  by (simp add: isFulfilledAndDefined_value isFulfilled_value)

text \<open>
  C3. \<open>isFulfilledAndDefined\<close> is to return false for a fulfilled value whose payload
  is \<^verbatim>\<open>null\<close>. The code tests \<^verbatim>\<open>typeof data.data !== 'undefined'\<close>, and
  \<^verbatim>\<open>typeof null\<close> is \<^verbatim>\<open>'object'\<close>: on
  \<^verbatim>\<open>{state: 'fulfilled', data: null, isLoading: false}\<close>, and on
  \<^verbatim>\<open>resolve(null)\<close>, it returns true, although its declared type guard narrows
  \<^verbatim>\<open>data\<close> to \<^verbatim>\<open>NonNullable<unknown>\<close>. (The rest of the claim holds with
  \<^verbatim>\<open>undefined\<close> as the absent payload: \<open>isFulfilledAndDefined_true_iff\<close>.)
\<close>

theorem isFulfilledAndDefined_null_payload:
  "isFulfilledAndDefined
     [[(''state'', JStr ''fulfilled''), (''data'', JNull), (''isLoading'', JBool False)]]
     (JRef 0) = Inr True
   \<and> (case resolve [] JNull of (h, v) \<Rightarrow> isFulfilledAndDefined h v) = Inr True"
  by (simp add: isFulfilledAndDefined_value resolve_def alloc_def own_props_def)

text \<open>
  C4, as stated, fails: \<open>isPending\<close> and \<open>isRejected\<close> read
  \<^verbatim>\<open>data.state\<close> without a guard, and raise a TypeError on \<^verbatim>\<open>undefined\<close>.
\<close>

theorem isPending_isRejected_raise_on_undefined:
  "isPending [] JUndefined = Inl TypeError \<and> isRejected [] JUndefined = Inl TypeError"
  by (simp add: isPending_def isRejected_def)

text \<open>
  C4, amended. No constructor raises, whatever its arguments, absent ones included.
  \<open>isFulfilled\<close> and \<open>isFulfilledAndDefined\<close>, whose parameter is optional, raise
  on no value and return false on \<^verbatim>\<open>undefined\<close>. \<open>isPending\<close> and
  \<open>isRejected\<close>, whose parameter is required, return on every value other than
  \<^verbatim>\<open>undefined\<close> and \<^verbatim>\<open>null\<close>, and raise a TypeError on these two.
\<close>

theorem constructors_and_predicates_raising:
  "(\<exists>h' r. create h d l = (h', JRef r))
   \<and> (\<exists>h' r. resolve h d = (h', JRef r))
   \<and> (\<exists>h' r. reject h d err = (h', JRef r))
   \<and> (\<exists>b. isFulfilled h v = Inr b)
   \<and> isFulfilled h JUndefined = Inr False
   \<and> (\<exists>b. isFulfilledAndDefined h v = Inr b)
   \<and> isFulfilledAndDefined h JUndefined = Inr False
   \<and> (v \<noteq> JUndefined \<and> v \<noteq> JNull \<longrightarrow>
        (\<exists>b. isPending h v = Inr b) \<and> (\<exists>b. isRejected h v = Inr b))
   \<and> (v = JUndefined \<or> v = JNull \<longrightarrow>
        isPending h v = Inl TypeError \<and> isRejected h v = Inl TypeError)"
proof -
  have c1: "\<exists>h' r. create h d l = (h', JRef r)" by (simp add: create_def alloc_def)
  have c2: "\<exists>h' r. resolve h d = (h', JRef r)" by (simp add: resolve_def alloc_def)
  have c3: "\<exists>h' r. reject h d err = (h', JRef r)" by (simp add: reject_def alloc_def)
  have f1: "\<exists>b. isFulfilled h v = Inr b" by (simp only: isFulfilled_value) blast
  have f2: "isFulfilled h JUndefined = Inr False" by (simp add: isFulfilled_value)
  have f3: "\<exists>b. isFulfilledAndDefined h v = Inr b"
    by (simp only: isFulfilledAndDefined_value) blast
  have f4: "isFulfilledAndDefined h JUndefined = Inr False"
    by (simp add: isFulfilledAndDefined_value)
  have p: "v \<noteq> JUndefined \<and> v \<noteq> JNull \<longrightarrow>
        (\<exists>b. isPending h v = Inr b) \<and> (\<exists>b. isRejected h v = Inr b)"
    by (simp add: isPending_non_nullish isRejected_non_nullish)
  have q: "v = JUndefined \<or> v = JNull \<longrightarrow>
        isPending h v = Inl TypeError \<and> isRejected h v = Inl TypeError"
    by (simp add: isPending_nullish isRejected_nullish)
  from c1 c2 c3 f1 f2 f3 f4 p q show ?thesis by (intro conjI)
qed

theorem constructors_and_predicates_raising_witness:
  "JStr ''pending'' \<noteq> JUndefined \<and> JStr ''pending'' \<noteq> JNull
   \<and> (\<exists>b. isPending [] (JStr ''pending'') = Inr b)
   \<and> (\<exists>b. isRejected [] (JStr ''pending'') = Inr b)
   \<and> (JNull = JUndefined \<or> JNull = JNull)
   \<and> isPending [] JNull = Inl TypeError \<and> isRejected [] JNull = Inl TypeError
   \<and> isFulfilled [] JUndefined = Inr False"
proof -
  note t1 = constructors_and_predicates_raising [of "[]" JUndefined JUndefined JUndefined "JStr ''pending''"]
  note t2 = constructors_and_predicates_raising [of "[]" JUndefined JUndefined JUndefined JNull]
  have n: "JStr ''pending'' \<noteq> JUndefined \<and> JStr ''pending'' \<noteq> JNull" by simp
  from t1 have "JStr ''pending'' \<noteq> JUndefined \<and> JStr ''pending'' \<noteq> JNull \<longrightarrow>
        (\<exists>b. isPending [] (JStr ''pending'') = Inr b) \<and> (\<exists>b. isRejected [] (JStr ''pending'') = Inr b)"
    by (elim conjE)
  with n have a: "(\<exists>b. isPending [] (JStr ''pending'') = Inr b)
      \<and> (\<exists>b. isRejected [] (JStr ''pending'') = Inr b)"
    by (elim impE)
  have m: "JNull = JUndefined \<or> JNull = JNull" by simp
  from t2 have "JNull = JUndefined \<or> JNull = JNull \<longrightarrow>
        isPending [] JNull = Inl TypeError \<and> isRejected [] JNull = Inl TypeError"
    by (elim conjE)
  with m have b: "isPending [] JNull = Inl TypeError \<and> isRejected [] JNull = Inl TypeError"
    by (elim impE)
  from t1 have c: "isFulfilled [] JUndefined = Inr False" by (elim conjE)
  from n a m b c show ?thesis by (elim conjE) (intro conjI; assumption)
qed

text \<open>
  C9. The three state predicates are mutually exclusive: on no value do two of
  \<open>isPending\<close>, \<open>isFulfilled\<close>, \<open>isRejected\<close> return true, and on a value
  produced by \<open>create\<close>, \<open>resolve\<close> or \<open>reject\<close> all three return and
  exactly one returns true.
\<close>

theorem state_predicates_mutually_exclusive:
  "\<not> (isPending h v = Inr True \<and> isFulfilled h v = Inr True)
   \<and> \<not> (isPending h v = Inr True \<and> isRejected h v = Inr True)
   \<and> \<not> (isFulfilled h v = Inr True \<and> isRejected h v = Inr True)
   \<and> (case create h d l of (h', p) \<Rightarrow>
        isPending h' p = Inr True \<and> isFulfilled h' p = Inr False \<and> isRejected h' p = Inr False)
   \<and> (case resolve h d of (h', p) \<Rightarrow>
        isPending h' p = Inr False \<and> isFulfilled h' p = Inr True \<and> isRejected h' p = Inr False)
   \<and> (case reject h d e of (h', p) \<Rightarrow>
        isPending h' p = Inr False \<and> isFulfilled h' p = Inr False \<and> isRejected h' p = Inr True)"
proof -
  have x1: "\<not> (isPending h v = Inr True \<and> isFulfilled h v = Inr True)"
    using returns_true_state(1,2) [of h v] by auto
  have x2: "\<not> (isPending h v = Inr True \<and> isRejected h v = Inr True)"
    using returns_true_state(1,3) [of h v] by auto
  have x3: "\<not> (isFulfilled h v = Inr True \<and> isRejected h v = Inr True)"
    using returns_true_state(2,3) [of h v] by auto
  have n: "JRef (length h) \<noteq> JUndefined" "JRef (length h) \<noteq> JNull" by simp_all
  have c: "case create h d l of (h', p) \<Rightarrow>
        isPending h' p = Inr True \<and> isFulfilled h' p = Inr False \<and> isRejected h' p = Inr False"
    unfolding create_def alloc_def prod.case isPending_non_nullish [OF n]
      isRejected_non_nullish [OF n] isFulfilled_value get_alloc_new
    by simp
  have r: "case resolve h d of (h', p) \<Rightarrow>
        isPending h' p = Inr False \<and> isFulfilled h' p = Inr True \<and> isRejected h' p = Inr False"
    unfolding resolve_def alloc_def prod.case isPending_non_nullish [OF n]
      isRejected_non_nullish [OF n] isFulfilled_value get_alloc_new
    by simp
  have j: "case reject h d e of (h', p) \<Rightarrow>
        isPending h' p = Inr False \<and> isFulfilled h' p = Inr False \<and> isRejected h' p = Inr True"
    unfolding reject_def alloc_def prod.case isPending_non_nullish [OF n]
      isRejected_non_nullish [OF n] isFulfilled_value get_alloc_new
    by simp
  from x1 x2 x3 c r j show ?thesis by (intro conjI)
qed

theorem state_predicates_mutually_exclusive_witness:
  "isFulfilled [[(''state'', JStr ''fulfilled''), (''data'', JNum 1), (''isLoading'', JBool True)]]
      (JRef 0) = Inr True
   \<and> isPending [[(''state'', JStr ''fulfilled''), (''data'', JNum 1), (''isLoading'', JBool True)]]
      (JRef 0) \<noteq> Inr True
   \<and> isRejected [[(''state'', JStr ''fulfilled''), (''data'', JNum 1), (''isLoading'', JBool True)]]
      (JRef 0) \<noteq> Inr True"
proof -
  let ?h = "[[(''state'', JStr ''fulfilled''), (''data'', JNum 1), (''isLoading'', JBool True)]]"
  note t = state_predicates_mutually_exclusive [of ?h "JRef 0" JUndefined JUndefined JUndefined]
  have f: "isFulfilled ?h (JRef 0) = Inr True"
    by (simp add: isFulfilled_value own_props_def)
  from t have "\<not> (isPending ?h (JRef 0) = Inr True \<and> isFulfilled ?h (JRef 0) = Inr True)"
    by (elim conjE)
  with f have p: "isPending ?h (JRef 0) \<noteq> Inr True" by simp
  from t have "\<not> (isFulfilled ?h (JRef 0) = Inr True \<and> isRejected ?h (JRef 0) = Inr True)"
    by (elim conjE)
  with f have r: "isRejected ?h (JRef 0) \<noteq> Inr True" by simp
  from f p r show ?thesis by (intro conjI)
qed

section \<open>The structural recogniser\<close>



end
